theory Spec2Isabelle
  imports Complex_Main "HOL-Library.Word" "HOL-Library.Monad_Syntax" "HOL-Library.Signed_Division"
begin

section \<open>Atomica: the physics and chemistry core\<close>

text \<open>
  A shallow embedding of the simulation core of Atomica (C++): the particle classes, the
  Coulomb solver, \<open>Atom::setPosition\<close>, the nuclear reactor and the orbital model.

  Conventions of the embedding.
  \<^item> A C++ \<open>int\<close> is a 32-bit word: \<open>+\<close>, \<open>-\<close> and \<open>*\<close> wrap around (the two's complement
    result that compilers produce where the C++ standard leaves signed overflow undefined),
    comparisons and conversions to \<open>float\<close> read the word as two's complement (\<open>sint\<close>).
  \<^item> A C++ \<open>float\<close> is a real number: every literal denotes its decimal value and
    \<open>+\<close>, \<open>-\<close>, \<open>*\<close>, \<open>/\<close> are exact, without the rounding to binary32. The exception is
    \<open>Atom::setPosition\<close>, where the question is whether positions coincide exactly: its
    subtraction and its addition are rounded to binary32 (\<open>binary32\<close> below).
    A division whose divisor may be zero is written \<open>fdiv\<close>; its result \<open>None\<close> stands for
    the infinity or NaN that IEEE arithmetic produces there. The model does not follow an
    infinity or a NaN any further: \<open>None\<close> is then the result of the whole computation.
  \<^item> A \<open>std::shared_ptr\<close> to an object that a function writes to is an address into a
    store; \<open>None\<close> is the null pointer where the source tests for it. An object that a
    function only reads through \<open>const\<close> getters is passed as its record.
  \<^item> Messages written to \<open>std::cout\<close> and \<open>std::cerr\<close> are not part of the model.
\<close>

subsection \<open>Machine numbers\<close>

type_synonym cint = "32 word"

definition int_to_float :: "cint \<Rightarrow> real" where
  "int_to_float i = real_of_int (sint i)"

definition fdiv :: "real \<Rightarrow> real \<Rightarrow> real option" where
  "fdiv a b = (if b = 0 then None else Some (a / b))"

definition fsub :: "real option \<Rightarrow> real option \<Rightarrow> real option" where
  "fsub a b = do { x \<leftarrow> a; y \<leftarrow> b; Some (x - y) }"

text \<open>Rounding to binary32, the \<open>float\<close> of every platform the program builds on: round to
  nearest, ties to even, with 24 significant bits and the least exponent \<open>-149\<close> of the
  subnormal numbers. \<open>ulp_exponent x\<close> is the exponent of the spacing of the binary32 numbers
  around x. Overflow to an infinity (a magnitude of \<open>2\<^sup>1\<^sup>2\<^sup>8\<close> or more) is not modelled.\<close>

definition round_half_even :: "real \<Rightarrow> int" where
  "round_half_even q =
     (let f = \<lfloor>q\<rfloor>
      in if q - of_int f < 1 / 2 then f
         else if 1 / 2 < q - of_int f then f + 1
         else if even f then f else f + 1)"

definition ulp_exponent :: "real \<Rightarrow> int" where
  "ulp_exponent x = max (\<lfloor>log 2 \<bar>x\<bar>\<rfloor> - 23) (- 149)"

definition binary32 :: "real \<Rightarrow> real" where
  "binary32 x =
     (if x = 0 then 0
      else of_int (round_half_even (x / 2 powi ulp_exponent x)) * 2 powi ulp_exponent x)"

subsection \<open>glm::vec3\<close>

datatype vec3 = Vec3 (vec_x: real) (vec_y: real) (vec_z: real)

instantiation vec3 :: ab_group_add
begin

definition zero_vec3 :: vec3 where
  "zero_vec3 = Vec3 0 0 0"

definition plus_vec3 :: "vec3 \<Rightarrow> vec3 \<Rightarrow> vec3" where
  "plus_vec3 a b = Vec3 (vec_x a + vec_x b) (vec_y a + vec_y b) (vec_z a + vec_z b)"

definition minus_vec3 :: "vec3 \<Rightarrow> vec3 \<Rightarrow> vec3" where
  "minus_vec3 a b = Vec3 (vec_x a - vec_x b) (vec_y a - vec_y b) (vec_z a - vec_z b)"

definition uminus_vec3 :: "vec3 \<Rightarrow> vec3" where
  "uminus_vec3 a = Vec3 (- vec_x a) (- vec_y a) (- vec_z a)"

instance
  by standard
    (simp_all add: zero_vec3_def plus_vec3_def minus_vec3_def uminus_vec3_def vec3.expand)

end

text \<open>\<open>float * vec3\<close>, \<open>glm::dot\<close>, \<open>glm::length\<close> and \<open>glm::normalize\<close>
  (\<open>v * inversesqrt(dot(v, v))\<close>).\<close>

definition scale :: "real \<Rightarrow> vec3 \<Rightarrow> vec3" where
  "scale s v = Vec3 (s * vec_x v) (s * vec_y v) (s * vec_z v)"

definition glm_dot :: "vec3 \<Rightarrow> vec3 \<Rightarrow> real" where
  "glm_dot a b = vec_x a * vec_x b + vec_y a * vec_y b + vec_z a * vec_z b"

definition glm_length :: "vec3 \<Rightarrow> real" where
  "glm_length v = sqrt (glm_dot v v)"

definition glm_normalize :: "vec3 \<Rightarrow> vec3" where
  "glm_normalize v = scale (1 / sqrt (glm_dot v v)) v"

text \<open>\<open>operator+\<close> and \<open>operator-\<close> of \<open>glm::vec3\<close> with their rounding: one \<open>float\<close>
  operation per component.\<close>

definition glm_add :: "vec3 \<Rightarrow> vec3 \<Rightarrow> vec3" where
  "glm_add a b =
     Vec3 (binary32 (vec_x a + vec_x b)) (binary32 (vec_y a + vec_y b))
          (binary32 (vec_z a + vec_z b))"

definition glm_sub :: "vec3 \<Rightarrow> vec3 \<Rightarrow> vec3" where
  "glm_sub a b =
     Vec3 (binary32 (vec_x a - vec_x b)) (binary32 (vec_y a - vec_y b))
          (binary32 (vec_z a - vec_z b))"

text \<open>A vector whose components are binary32 numbers.\<close>

definition is_float_vec :: "vec3 \<Rightarrow> bool" where
  "is_float_vec v \<longleftrightarrow>
     binary32 (vec_x v) = vec_x v \<and> binary32 (vec_y v) = vec_y v \<and> binary32 (vec_z v) = vec_z v"

subsection \<open>Particle, Nucleus, Electron, Atom\<close>

datatype ParticleType = PROTON | NEUTRON | ELECTRON | NUCLEUS

record Particle =
  m_type :: ParticleType
  m_position :: vec3
  m_velocity :: vec3
  m_mass :: real
  m_charge :: real

record Nucleus = Particle +
  m_atomicNumber :: cint
  m_massNumber :: cint

record Electron = Particle +
  m_orbitalLevel :: cint

definition Particle_ctor :: "ParticleType \<Rightarrow> vec3 \<Rightarrow> vec3 \<Rightarrow> real \<Rightarrow> real \<Rightarrow> Particle" where
  "Particle_ctor type position velocity mass charge =
     \<lparr> m_type = type, m_position = position, m_velocity = velocity,
       m_mass = mass, m_charge = charge \<rparr>"

definition Nucleus_ctor :: "cint \<Rightarrow> cint \<Rightarrow> vec3 \<Rightarrow> vec3 \<Rightarrow> real \<Rightarrow> real \<Rightarrow> Nucleus" where
  "Nucleus_ctor atomicNumber massNumber position velocity mass charge =
     \<lparr> m_type = NUCLEUS, m_position = position, m_velocity = velocity,
       m_mass = mass, m_charge = charge,
       m_atomicNumber = atomicNumber, m_massNumber = massNumber \<rparr>"

definition Electron_ctor :: "vec3 \<Rightarrow> vec3 \<Rightarrow> cint \<Rightarrow> Electron" where
  "Electron_ctor position velocity orbitalLevel =
     \<lparr> m_type = ELECTRON, m_position = position, m_velocity = velocity,
       m_mass = 9.109 / 10 ^ 31, m_charge = - (1.602 / 10 ^ 19),
       m_orbitalLevel = orbitalLevel \<rparr>"

text \<open>The store of the particles that are reached through shared pointers. A pointer to a
  \<open>Nucleus\<close> and a pointer to an \<open>Electron\<close> never alias, so each class has its own
  address space.\<close>

type_synonym addr = nat

record heap =
  nuclei :: "addr \<Rightarrow> Nucleus"
  electrons :: "addr \<Rightarrow> Electron"

text \<open>An \<open>Atom\<close> holds its own copy of the atomic and mass number, a pointer to its
  nucleus and a vector of pointers to its electrons.\<close>

record Atom =
  atom_atomicNumber :: cint
  atom_massNumber :: cint
  m_nucleus :: addr
  m_electrons :: "addr list"

subsection \<open>Atom::setPosition\<close>

definition Nucleus_setPosition :: "heap \<Rightarrow> addr \<Rightarrow> vec3 \<Rightarrow> heap" where
  "Nucleus_setPosition h n position =
     h\<lparr>nuclei := (nuclei h)(n := (nuclei h n)\<lparr>m_position := position\<rparr>)\<rparr>"

definition Electron_setPosition :: "heap \<Rightarrow> addr \<Rightarrow> vec3 \<Rightarrow> heap" where
  "Electron_setPosition h e position =
     h\<lparr>electrons := (electrons h)(e := (electrons h e)\<lparr>m_position := position\<rparr>)\<rparr>"

text \<open>The body of the range-based \<open>for\<close> loop over \<open>m_electrons\<close>, and the loop itself: one
  step per entry of the vector, in order, each reading the store the previous step left.\<close>

definition shift_electron :: "vec3 \<Rightarrow> addr \<Rightarrow> heap \<Rightarrow> heap" where
  "shift_electron delta electron h =
     Electron_setPosition h electron (glm_add (m_position (electrons h electron)) delta)"

fun shift_electrons :: "vec3 \<Rightarrow> addr list \<Rightarrow> heap \<Rightarrow> heap" where
  "shift_electrons delta [] h = h"
| "shift_electrons delta (electron # rest) h =
     shift_electrons delta rest (shift_electron delta electron h)"

definition Atom_setPosition :: "heap \<Rightarrow> Atom \<Rightarrow> vec3 \<Rightarrow> heap" where
  "Atom_setPosition h this position =
     (let delta = glm_sub position (m_position (nuclei h (m_nucleus this)));
          h1 = Nucleus_setPosition h (m_nucleus this) position
      in shift_electrons delta (m_electrons this) h1)"

subsection \<open>CoulombSolver\<close>

definition COULOMB_CONSTANT :: real where
  "COULOMB_CONSTANT = 8.9875 * 10 ^ 9"

text \<open>The body of the inner loop of \<open>CoulombSolver::calculateForces\<close> for the pair
  \<open>(i, j)\<close>. The particles are only read (\<open>getPosition\<close>, \<open>getCharge\<close>), so the vector of
  pointers is the list of the objects of class \<open>Particle\<close> they point to, and the only state
  is the local vector \<open>forces\<close>.\<close>

definition pair_step :: "Particle list \<Rightarrow> nat \<Rightarrow> nat \<Rightarrow> vec3 list \<Rightarrow> vec3 list" where
  "pair_step particles i j forces =
     (let r_vec = m_position (particles ! i) - m_position (particles ! j);
          distance = glm_length r_vec
      in if distance < 1 / 10 ^ 9 then forces
         else
           (let forceMagnitude =
                  COULOMB_CONSTANT * (m_charge (particles ! i) * m_charge (particles ! j))
                    / (distance * distance);
                forceDirection = glm_normalize r_vec;
                force = scale forceMagnitude forceDirection;
                forces1 = forces[i := forces ! i + force]
            in forces1[j := forces1 ! j - force]))"

function inner_loop :: "Particle list \<Rightarrow> nat \<Rightarrow> nat \<Rightarrow> vec3 list \<Rightarrow> vec3 list" where
  "inner_loop particles i j forces =
     (if j < length particles
      then inner_loop particles i (j + 1) (pair_step particles i j forces)
      else forces)"
  by pat_completeness auto
termination
  by (relation "measure (\<lambda>(particles, i, j, forces). length particles - j)") auto

function outer_loop :: "Particle list \<Rightarrow> nat \<Rightarrow> vec3 list \<Rightarrow> vec3 list" where
  "outer_loop particles i forces =
     (if i < length particles
      then outer_loop particles (i + 1) (inner_loop particles i (i + 1) forces)
      else forces)"
  by pat_completeness auto
termination
  by (relation "measure (\<lambda>(particles, i, forces). length particles - i)") auto

definition calculateForces :: "Particle list \<Rightarrow> vec3 list" where
  "calculateForces particles = outer_loop particles 0 (replicate (length particles) 0)"

declare inner_loop.simps [simp del] outer_loop.simps [simp del]

text \<open>The solver in the words of the specification. For the pair \<open>(i, j)\<close>: displacement
  \<open>r = pos(i) - pos(j)\<close>, distance \<open>d = |r|\<close>; no force if \<open>d < 1e-9\<close>, otherwise a force of
  magnitude \<open>k\<^sub>e q\<^sub>i q\<^sub>j / d\<^sup>2\<close> along \<open>r / d\<close>. The force on particle k is the sum of what
  every pair adds to its accumulator, starting from zero: the pair force of \<open>(k, j)\<close> for
  every \<open>j > k\<close>, minus the pair force of \<open>(i, k)\<close> for every \<open>i < k\<close>.\<close>

definition pair_force :: "Particle list \<Rightarrow> nat \<Rightarrow> nat \<Rightarrow> vec3" where
  "pair_force ps i j =
     (let r = m_position (ps ! i) - m_position (ps ! j);
          d = glm_length r
      in if d < 1 / 10 ^ 9 then 0
         else scale (COULOMB_CONSTANT * m_charge (ps ! i) * m_charge (ps ! j) / d\<^sup>2)
                (scale (1 / d) r))"

definition spec_forces :: "Particle list \<Rightarrow> vec3 list" where
  "spec_forces ps =
     map (\<lambda>k. (\<Sum>j = k + 1..<length ps. pair_force ps k j) - (\<Sum>i = 0..<k. pair_force ps i k))
       [0..<length ps]"

text \<open>What the pair \<open>(i, j)\<close> adds to the accumulator of particle k.\<close>

definition contrib :: "Particle list \<Rightarrow> nat \<Rightarrow> nat \<Rightarrow> nat \<Rightarrow> vec3" where
  "contrib ps i j k =
     (if k = i then pair_force ps i j else if k = j then - pair_force ps i j else 0)"

subsection \<open>OrbitalModel\<close>

definition RYDBERG_CONSTANT_EV :: real where
  "RYDBERG_CONSTANT_EV = 13.605693"

text \<open>\<open>OrbitalModel::calculateOrbitalEnergy\<close>. Both products are \<open>int\<close> products and wrap
  around before the conversion to \<open>float\<close>; the quotient is a \<open>float\<close> division.\<close>

definition calculateOrbitalEnergy :: "cint \<Rightarrow> cint \<Rightarrow> real option" where
  "calculateOrbitalEnergy atomicNumber orbitalLevel =
     (if sint orbitalLevel \<le> 0 then Some 0
      else map_option (\<lambda>q. - RYDBERG_CONSTANT_EV * q)
             (fdiv (int_to_float (atomicNumber * atomicNumber))
                   (int_to_float (orbitalLevel * orbitalLevel))))"

definition Electron_setOrbitalLevel :: "heap \<Rightarrow> addr \<Rightarrow> cint \<Rightarrow> heap" where
  "Electron_setOrbitalLevel h e orbitalLevel =
     h\<lparr>electrons := (electrons h)(e := (electrons h e)\<lparr>m_orbitalLevel := orbitalLevel\<rparr>)\<rparr>"

text \<open>\<open>OrbitalModel::simulateElectronJump\<close>: the returned \<open>float\<close> and the store after the
  call. The electron is written to; the atom is only asked for its atomic number.\<close>

definition simulateElectronJump ::
  "heap \<Rightarrow> addr option \<Rightarrow> Atom option \<Rightarrow> cint \<Rightarrow> real option \<times> heap" where
  "simulateElectronJump h electron atom newOrbitalLevel =
     (case (electron, atom) of
        (Some e, Some a) \<Rightarrow>
          (let currentOrbitalLevel = m_orbitalLevel (electrons h e) in
           if sint newOrbitalLevel \<le> 0 then (Some 0, h)
           else
             (let initialEnergy = calculateOrbitalEnergy (atom_atomicNumber a) currentOrbitalLevel;
                  finalEnergy = calculateOrbitalEnergy (atom_atomicNumber a) newOrbitalLevel;
                  deltaE = fsub finalEnergy initialEnergy
              in (deltaE, Electron_setOrbitalLevel h e newOrbitalLevel)))
      | _ \<Rightarrow> (Some 0, h))"

subsection \<open>NuclearReactor\<close>

definition AMU_TO_KG :: real where
  "AMU_TO_KG = 1.660539 / 10 ^ 27"

definition C_SQUARED :: real where
  "C_SQUARED = 8.98755179 * 10 ^ 16"

definition J_TO_EV :: real where
  "J_TO_EV = 6.242 * 10 ^ 18"

text \<open>\<open>NuclearReactor::simulateFission\<close>. The nucleus is only read (\<open>getAtomicNumber\<close>,
  \<open>getMassNumber\<close>) and the reactor has no fields, so the call is a function of the nucleus
  and its only result is the returned \<open>float\<close>.\<close>

definition simulateFission :: "Nucleus \<Rightarrow> real" where
  "simulateFission nucleus =
     (if m_atomicNumber nucleus \<noteq> 92 \<or> m_massNumber nucleus \<noteq> 235 then 0
      else
        (let mass_U235 = 235.0439299;
             mass_Ba141 = 140.914411;
             mass_Kr92 = 91.926156;
             mass_neutron = 1.008665;
             initialMass = mass_U235;
             finalMass = mass_Ba141 + mass_Kr92 + (3 * mass_neutron);
             massDefectAMU = initialMass - finalMass
         in if massDefectAMU \<le> 0 then 0
            else
              (let energyJoules = massDefectAMU * AMU_TO_KG * C_SQUARED;
                   energyEV = energyJoules * J_TO_EV
               in energyEV)))"

text \<open>\<open>NuclearReactor::simulateFusion\<close>, read-only in the same way.\<close>

definition simulateFusion :: "Nucleus \<Rightarrow> Nucleus \<Rightarrow> real" where
  "simulateFusion nucleus1 nucleus2 =
     (let isDeuterium = ((m_atomicNumber nucleus1 = 1 \<and> m_massNumber nucleus1 = 2) \<or>
                         (m_atomicNumber nucleus2 = 1 \<and> m_massNumber nucleus2 = 2));
          isTritium = ((m_atomicNumber nucleus1 = 1 \<and> m_massNumber nucleus1 = 3) \<or>
                       (m_atomicNumber nucleus2 = 1 \<and> m_massNumber nucleus2 = 3))
      in if \<not> (isDeuterium \<and> isTritium) then 0
         else
           (let mass_D = 2.01410178;
                mass_T = 3.01604927;
                mass_He4 = 4.00260325;
                mass_neutron = 1.008665;
                initialMass = mass_D + mass_T;
                finalMass = mass_He4 + mass_neutron;
                massDefectAMU = initialMass - finalMass
            in if massDefectAMU \<le> 0 then 0
               else
                 (let energyJoules = massDefectAMU * AMU_TO_KG * C_SQUARED;
                      energyEV = energyJoules * J_TO_EV
                  in energyEV)))"

text \<open>\<open>NuclearReactor::calculateBindingEnergyPerNucleon\<close>. \<open>std::pow\<close> and \<open>std::sqrt\<close>
  belong to the C++ library and are parameters of the model; they return \<open>None\<close> where the
  library returns a NaN or an infinity. \<open>%\<close> on \<open>int\<close> truncates towards zero (\<open>smod\<close>).\<close>

definition calculateBindingEnergyPerNucleon ::
  "(real \<Rightarrow> real \<Rightarrow> real option) \<Rightarrow> (real \<Rightarrow> real option) \<Rightarrow> cint \<Rightarrow> cint \<Rightarrow> real option" where
  "calculateBindingEnergyPerNucleon std_pow std_sqrt atomicNumber massNumber =
     (if massNumber = 0 then Some 0
      else
        (let A = int_to_float massNumber;
             Z = int_to_float atomicNumber;
             volumeTerm = 15.7 * A
         in do {
              pow_2_3 \<leftarrow> std_pow A (2 / 3);
              let surfaceTerm = 17.8 * pow_2_3;
              pow_1_3 \<leftarrow> std_pow A (1 / 3);
              coulombTerm \<leftarrow> fdiv (0.71 * Z * (Z - 1)) pow_1_3;
              pow_2 \<leftarrow> std_pow (A - 2 * Z) 2;
              asymmetryTerm \<leftarrow> fdiv (23.7 * pow_2) A;
              pairingTerm \<leftarrow>
                (if sint massNumber smod 2 = 0 \<and> sint atomicNumber smod 2 = 0
                 then do { root \<leftarrow> std_sqrt A; fdiv 11.2 root }
                 else if sint massNumber smod 2 \<noteq> 0 \<and> sint atomicNumber smod 2 \<noteq> 0
                 then do { root \<leftarrow> std_sqrt A; fdiv (- 11.2) root }
                 else Some 0);
              let bindingEnergyMeV =
                    volumeTerm - surfaceTerm - coulombTerm - asymmetryTerm + pairingTerm;
              let bindingEnergyMeV = (if bindingEnergyMeV < 0 then 0 else bindingEnergyMeV);
              perNucleon \<leftarrow> fdiv bindingEnergyMeV A;
              Some (perNucleon * 10 ^ 6)
            }))"

text \<open>The semi-empirical mass formula in the words of the specification: volume term
  \<open>15.7 A\<close>, surface term \<open>17.8 A\<^sup>2\<^sup>/\<^sup>3\<close>, Coulomb term \<open>0.71 Z (Z - 1) / A\<^sup>1\<^sup>/\<^sup>3\<close>,
  asymmetry term \<open>23.7 (A - 2 Z)\<^sup>2 / A\<close>, pairing term \<open>11.2 / sqrt A\<close> with a positive
  sign if A and Z are both even, a negative sign if both are odd, and zero otherwise, all in
  MeV; the total clamped to be at least 0, divided by A, and converted to eV.\<close>

definition semi_empirical_eV_per_nucleon :: "int \<Rightarrow> int \<Rightarrow> real" where
  "semi_empirical_eV_per_nucleon Z A =
     (let a = real_of_int A;
          z = real_of_int Z;
          pairing = (if even A \<and> even Z then 11.2 / sqrt a
                     else if odd A \<and> odd Z then - (11.2 / sqrt a)
                     else 0);
          B = 15.7 * a - 17.8 * a powr (2 / 3) - 0.71 * z * (z - 1) / a powr (1 / 3)
              - 23.7 * (a - 2 * z)\<^sup>2 / a + pairing
      in max B 0 / a * 10 ^ 6)"

text \<open>A library that returns the values of the mathematical functions.\<close>

definition math_pow :: "real \<Rightarrow> real \<Rightarrow> real option" where
  "math_pow x y = Some (if y = 2 then x\<^sup>2 else x powr y)"

definition math_sqrt :: "real \<Rightarrow> real option" where
  "math_sqrt x = Some (sqrt x)"

subsection \<open>Example objects\<close>

text \<open>The nucleus that \<open>Atom(Z, A, position)\<close> builds, and a hydrogen atom in a store whose
  nuclei are hydrogen nuclei at the origin and whose electrons sit at the origin on level 2.\<close>

definition Atom_nucleus :: "cint \<Rightarrow> cint \<Rightarrow> vec3 \<Rightarrow> Nucleus" where
  "Atom_nucleus atomicNumber massNumber position =
     (let nucleusMass = (int_to_float atomicNumber * (1.672 / 10 ^ 27))
                        + (int_to_float (massNumber - atomicNumber) * (1.674 / 10 ^ 27));
          nucleusCharge = int_to_float atomicNumber * (1.602 / 10 ^ 19)
      in Nucleus_ctor atomicNumber massNumber position 0 nucleusMass nucleusCharge)"

definition hydrogen_store :: heap where
  "hydrogen_store =
     \<lparr> nuclei = (\<lambda>_. Atom_nucleus 1 1 0), electrons = (\<lambda>_. Electron_ctor 0 0 2) \<rparr>"

definition hydrogen_atom :: Atom where
  "hydrogen_atom =
     \<lparr> atom_atomicNumber = 1, atom_massNumber = 1, m_nucleus = 0, m_electrons = [0] \<rparr>"

text \<open>Three unit charges, the last two at the same place.\<close>

definition three_charges :: "Particle list" where
  "three_charges =
     [Particle_ctor PROTON (Vec3 0 0 0) 0 1 1,
      Particle_ctor PROTON (Vec3 1 0 0) 0 1 1,
      Particle_ctor PROTON (Vec3 1 0 0) 0 1 1]"

text \<open>A store in which nuclei and electrons are all at \<open>(0.3f, 0, 0)\<close>, as after
  \<open>Atom(1, 1, glm::vec3(0.3f, 0.0f, 0.0f))\<close>.\<close>

definition fresh_store :: heap where
  "fresh_store =
     \<lparr> nuclei = (\<lambda>_. Atom_nucleus 1 1 (Vec3 (binary32 0.3) 0 0)),
       electrons = (\<lambda>_. Electron_ctor (Vec3 (binary32 0.3) 0 0) 0 1) \<rparr>"

text \<open>A store in which the electrons are away from the nuclei (\<open>PhysicsEngine::update\<close>
  moves every particle on its own, and \<open>addElectron\<close> accepts an electron at any position).\<close>

definition drifted_store :: heap where
  "drifted_store =
     \<lparr> nuclei = (\<lambda>_. Atom_nucleus 1 1 0), electrons = (\<lambda>_. Electron_ctor (Vec3 1 0 0) 0 1) \<rparr>"

section \<open>Properties\<close>

subsection \<open>Helper facts\<close>

lemma sint_square_no_wrap:
  fixes w :: cint
  assumes "\<bar>sint w\<bar> \<le> 46340"
  shows "sint (w * w) = sint w * sint w"
proof -
  have "sint w * sint w = \<bar>sint w\<bar> * \<bar>sint w\<bar>"
    by simp
  also have "\<dots> \<le> 46340 * 46340"
    using assms by (intro mult_mono) auto
  finally have ub: "sint w * sint w < 2 ^ 31"
    by simp
  have lb: "- (2 ^ 31) \<le> sint w * sint w"
    by (rule order_trans [of _ 0]) simp_all
  have "signed_take_bit 31 (sint w * sint w) = sint w * sint w"
    using lb ub by (rule signed_take_bit_int_eq_self)
  then show ?thesis
    by (simp add: sint_word_ariths)
qed

lemma smod_2_eq_0_iff: "k smod 2 = 0 \<longleftrightarrow> even k" for k :: int
  by (auto simp add: smod_int_alt_def sgn_if)

lemma int_to_float_eq_0_iff: "int_to_float w = 0 \<longleftrightarrow> w = 0"
  by (simp add: int_to_float_def signed_eq_0_iff del: of_int_sint)

lemmas orbital_defs =
  calculateOrbitalEnergy_def fdiv_def int_to_float_def RYDBERG_CONSTANT_EV_def

lemmas reactor_defs = AMU_TO_KG_def C_SQUARED_def J_TO_EV_def Let_def

lemmas example_defs =
  hydrogen_store_def hydrogen_atom_def Atom_nucleus_def Nucleus_ctor_def Electron_ctor_def

lemmas vec3_defs = zero_vec3_def plus_vec3_def minus_vec3_def uminus_vec3_def

subsection \<open>Rounding to binary32\<close>

lemma round_half_even_of_int [simp]: "round_half_even (of_int n) = n"
  by (simp add: round_half_even_def)

lemma round_half_even_bounds: "\<lfloor>q\<rfloor> \<le> round_half_even q \<and> round_half_even q \<le> \<lceil>q\<rceil>"
proof -
  have "q - of_int \<lfloor>q\<rfloor> < 1 / 2 \<or> \<lfloor>q\<rfloor> + 1 \<le> \<lceil>q\<rceil>"
    by (simp add: ceiling_altdef)
  moreover have "\<lfloor>q\<rfloor> \<le> \<lceil>q\<rceil>"
    by simp
  ultimately show ?thesis
    by (auto simp add: round_half_even_def Let_def)
qed

lemma binary32_zero [simp]: "binary32 0 = 0"
  by (simp add: binary32_def)

lemma ulp_exponent_ge: "- 149 \<le> ulp_exponent x"
  by (simp add: ulp_exponent_def)

lemma powr2_of_int: "(2::real) powr real_of_int k = 2 powi k"
  by (simp add: powr_real_of_int')

lemma powr2_of_int_Suc: "(2::real) powr (real_of_int k + 1) = 2 powi (k + 1)"
  using powr2_of_int [of "k + 1"] by simp

lemma floor_log2_bounds:
  assumes "x \<noteq> 0"
  shows "2 powi \<lfloor>log 2 \<bar>x\<bar>\<rfloor> \<le> \<bar>x\<bar>" and "\<bar>x\<bar> < 2 powi (\<lfloor>log 2 \<bar>x\<bar>\<rfloor> + 1)"
proof -
  have "0 < \<bar>x\<bar>" using assms by simp
  then have "2 powr real_of_int \<lfloor>log 2 \<bar>x\<bar>\<rfloor> \<le> \<bar>x\<bar>
      \<and> \<bar>x\<bar> < 2 powr (real_of_int \<lfloor>log 2 \<bar>x\<bar>\<rfloor> + 1)"
    using floor_log_eq_powr_iff [of "\<bar>x\<bar>" 2 "\<lfloor>log 2 \<bar>x\<bar>\<rfloor>"] by simp
  then show "2 powi \<lfloor>log 2 \<bar>x\<bar>\<rfloor> \<le> \<bar>x\<bar>" and "\<bar>x\<bar> < 2 powi (\<lfloor>log 2 \<bar>x\<bar>\<rfloor> + 1)"
    unfolding powr2_of_int powr2_of_int_Suc by simp_all
qed

lemma floor_log2_eq:
  assumes "2 powi k \<le> \<bar>x\<bar>" and "\<bar>x\<bar> < 2 powi (k + 1)"
  shows "\<lfloor>log 2 \<bar>x\<bar>\<rfloor> = k"
proof -
  have "0 < (2::real) powi k" by simp
  with assms have "0 < \<bar>x\<bar>" by linarith
  then show ?thesis
    using assms floor_log_eq_powr_iff [of "\<bar>x\<bar>" 2 k]
    by (simp add: powr2_of_int powr2_of_int_Suc)
qed

lemma scaled_bound:
  assumes "x \<noteq> 0"
  shows "\<bar>x / 2 powi ulp_exponent x\<bar> < 2 ^ 24"
proof -
  let ?k = "\<lfloor>log 2 \<bar>x\<bar>\<rfloor>" and ?e = "ulp_exponent x"
  have "?k + 1 \<le> ?e + 24"
    by (simp add: ulp_exponent_def)
  then have "(2::real) powi (?k + 1) \<le> 2 powi (?e + 24)"
    by (intro power_int_increasing) simp_all
  also have "\<dots> = 2 powi ?e * 2 ^ 24"
    by (simp add: power_int_add)
  finally have "\<bar>x\<bar> < 2 powi ?e * 2 ^ 24"
    using floor_log2_bounds(2) [OF assms] by linarith
  then show ?thesis
    by (simp add: pos_divide_less_eq mult.commute)
qed

lemma binary32_grid:
  assumes "\<bar>n\<bar> \<le> 2 ^ 24" and "- 149 \<le> e"
  shows "binary32 (of_int n * 2 powi e) = of_int n * 2 powi e"
proof (cases "n = 0")
  case True
  then show ?thesis by simp
next
  case False
  define y :: real where "y = of_int n * 2 powi e"
  define e' where "e' = ulp_exponent y"
  have y0: "y \<noteq> 0"
    using False by (simp add: y_def)
  have absy: "\<bar>y\<bar> = of_int \<bar>n\<bar> * 2 powi e"
    by (simp add: y_def abs_mult)
  have "\<exists>m. y = of_int m * 2 powi e'"
  proof (cases "\<bar>n\<bar> < 2 ^ 24")
    case True
    then have "real_of_int \<bar>n\<bar> < 2 ^ 24"
      by (metis of_int_less_iff of_int_numeral of_int_power)
    then have "\<bar>y\<bar> < 2 powi e * 2 ^ 24"
      unfolding absy by (simp add: mult.commute)
    then have lt: "\<bar>y\<bar> < 2 powi (e + 24)"
      by (simp add: power_int_add)
    have "2 powi \<lfloor>log 2 \<bar>y\<bar>\<rfloor> \<le> \<bar>y\<bar>"
      by (rule floor_log2_bounds(1) [OF y0])
    with lt have "(2::real) powi \<lfloor>log 2 \<bar>y\<bar>\<rfloor> < 2 powi (e + 24)"
      by linarith
    then have "\<lfloor>log 2 \<bar>y\<bar>\<rfloor> < e + 24"
    proof (rule contrapos_pp)
      assume "\<not> \<lfloor>log 2 \<bar>y\<bar>\<rfloor> < e + 24"
      then have "(2::real) powi (e + 24) \<le> 2 powi \<lfloor>log 2 \<bar>y\<bar>\<rfloor>"
        by (intro power_int_increasing) simp_all
      then show "\<not> (2::real) powi \<lfloor>log 2 \<bar>y\<bar>\<rfloor> < 2 powi (e + 24)"
        by simp
    qed
    with assms(2) have le: "e' \<le> e"
      by (simp add: e'_def ulp_exponent_def)
    then have "(2::real) powi e = 2 powi (e - e') * 2 powi e'"
      by (simp add: power_int_add [symmetric])
    also have "(2::real) powi (e - e') = 2 ^ nat (e - e')"
      using le by (simp add: power_int_def)
    finally have "y = of_int (n * 2 ^ nat (e - e')) * 2 powi e'"
      by (simp add: y_def)
    then show ?thesis ..
  next
    case False
    with assms(1) have n: "\<bar>n\<bar> = 2 ^ 24" by simp
    then have "\<bar>y\<bar> = 2 powi (e + 24)"
      unfolding absy by (simp add: power_int_add mult.commute)
    then have "\<lfloor>log 2 \<bar>y\<bar>\<rfloor> = e + 24"
      by (intro floor_log2_eq) (simp_all add: power_int_add)
    with assms(2) have e': "e' = e + 1"
      by (simp add: e'_def ulp_exponent_def)
    from n have "n = 2 ^ 24 \<or> n = - (2 ^ 24)" by linarith
    then have "n = 2 * (n div 2)" by (elim disjE) simp_all
    then have "real_of_int n = 2 * of_int (n div 2)"
      by (metis of_int_mult of_int_numeral)
    then have "y = of_int (n div 2) * 2 powi (e + 1)"
      by (simp add: y_def power_int_add)
    then show ?thesis
      unfolding e' ..
  qed
  then obtain m where m: "y = of_int m * 2 powi e'" ..
  then have "y / 2 powi e' = of_int m"
    by simp
  then have "binary32 y = of_int m * 2 powi e'"
    using y0 by (simp add: binary32_def e'_def [symmetric])
  then show ?thesis
    using m by (simp add: y_def)
qed

lemma binary32_idem [simp]: "binary32 (binary32 x) = binary32 x"
proof (cases "x = 0")
  case True
  then show ?thesis by simp
next
  case False
  let ?q = "x / 2 powi ulp_exponent x"
  have "\<bar>?q\<bar> < 2 ^ 24"
    by (rule scaled_bound [OF False])
  then have "- (2 ^ 24) < ?q" and "?q < 2 ^ 24"
    by linarith+
  then have "- (2 ^ 24) \<le> \<lfloor>?q\<rfloor>" and "\<lceil>?q\<rceil> \<le> 2 ^ 24"
    by (simp_all add: le_floor_iff ceiling_le_iff)
  with round_half_even_bounds [of ?q] have "\<bar>round_half_even ?q\<bar> \<le> 2 ^ 24"
    by linarith
  then show ?thesis
    using False by (simp add: binary32_def [of x] binary32_grid ulp_exponent_ge)
qed

lemma binary32_eval:
  assumes "2 powi k \<le> \<bar>x\<bar>" and "\<bar>x\<bar> < 2 powi (k + 1)" and "- 126 \<le> k"
  shows "binary32 x = of_int (round_half_even (x / 2 powi (k - 23))) * 2 powi (k - 23)"
proof -
  have "\<lfloor>log 2 \<bar>x\<bar>\<rfloor> = k"
    using assms(1,2) by (rule floor_log2_eq)
  with assms(3) have "ulp_exponent x = k - 23"
    by (simp add: ulp_exponent_def)
  moreover have "x \<noteq> 0"
  proof
    assume "x = 0"
    with assms(1) have "(2::real) powi k \<le> 0" by simp
    moreover have "0 < (2::real) powi k" by simp
    ultimately show False by linarith
  qed
  ultimately show ?thesis
    by (simp add: binary32_def)
qed

lemma binary32_of_int: "\<bar>n\<bar> \<le> 2 ^ 24 \<Longrightarrow> binary32 (of_int n) = of_int n"
  using binary32_grid [of n 0] by simp

lemma binary32_small [simp]:
  "binary32 1 = 1" "binary32 5 = 5" "binary32 6 = 6" "binary32 10 = 10"
  using binary32_of_int [of 1] binary32_of_int [of 5] binary32_of_int [of 6]
    binary32_of_int [of 10]
  by simp_all

text \<open>The literals \<open>0.3f\<close> and \<open>0.1f\<close>; the rounded difference \<open>0.1f - 0.3f\<close>, whose exact
  value \<open>-26843547 / 2\<^sup>2\<^sup>7\<close> lies halfway between two binary32 numbers; and the rounded sum of
  \<open>0.3f\<close> and that difference, which is \<open>13421772 / 2\<^sup>2\<^sup>7\<close>, one below \<open>0.1f\<close>.\<close>

lemma binary32_three_tenths: "binary32 0.3 = 10066330 / 2 ^ 25"
  using binary32_eval [of "- 2" "0.3"] by (simp add: round_half_even_def)

lemma binary32_one_tenth: "binary32 0.1 = 13421773 / 2 ^ 27"
  using binary32_eval [of "- 4" "0.1"] by (simp add: round_half_even_def)

lemma binary32_difference:
  "binary32 (- (26843547 / 134217728)) = - (6710887 / 33554432)"
  using binary32_eval [of "- 3" "- (26843547 / 134217728)"]
  by (simp add: round_half_even_def)

lemma binary32_sum:
  "binary32 (3355443 / 33554432) = 3355443 / 33554432"
  using binary32_eval [of "- 4" "3355443 / 33554432"]
  by (simp add: round_half_even_def)

lemma is_float_vec_glm_add [simp]: "is_float_vec (glm_add a b)"
  by (simp add: is_float_vec_def glm_add_def)

lemma glm_add_zero: "is_float_vec v \<Longrightarrow> glm_add v 0 = v"
  by (cases v) (simp add: is_float_vec_def glm_add_def zero_vec3_def)

lemma glm_sub_self [simp]: "glm_sub p p = 0"
  by (simp add: glm_sub_def zero_vec3_def)

subsection \<open>Atom::setPosition\<close>

lemma nuclei_shift_electrons [simp]: "nuclei (shift_electrons d es h) = nuclei h"
  by (induction es arbitrary: h) (simp_all add: shift_electron_def Electron_setPosition_def)

lemma shift_electrons_other:
  "e \<notin> set es \<Longrightarrow> electrons (shift_electrons d es h) e = electrons h e"
  by (induction es arbitrary: h) (auto simp add: shift_electron_def Electron_setPosition_def)

lemma shift_electrons_member:
  "distinct es \<Longrightarrow> e \<in> set es \<Longrightarrow>
   electrons (shift_electrons d es h) e
     = (electrons h e)\<lparr>m_position := glm_add (m_position (electrons h e)) d\<rparr>"
proof (induction es arbitrary: h)
  case Nil
  then show ?case by simp
next
  case (Cons x xs)
  show ?case
  proof (cases "e = x")
    case True
    with Cons.prems have "e \<notin> set xs" by simp
    then show ?thesis
      using True by (simp add: shift_electrons_other shift_electron_def Electron_setPosition_def)
  next
    case False
    with Cons.prems have "distinct xs" "e \<in> set xs" by simp_all
    then show ?thesis
      using False Cons.IH by (simp add: shift_electron_def Electron_setPosition_def)
  qed
qed

text \<open>After the loop every electron of the vector, repeated or not, holds a position that an
  addition has rounded.\<close>

lemma shift_electrons_float:
  "e \<in> set es \<Longrightarrow> is_float_vec (m_position (electrons (shift_electrons d es h) e))"
proof (induction es arbitrary: h)
  case Nil
  then show ?case by simp
next
  case (Cons x xs)
  show ?case
  proof (cases "e \<in> set xs")
    case True
    then show ?thesis
      by (simp add: Cons.IH)
  next
    case False
    with Cons.prems have "e = x" by simp
    with False show ?thesis
      by (simp add: shift_electrons_other shift_electron_def Electron_setPosition_def)
  qed
qed

lemma shift_electron_zero:
  "is_float_vec (m_position (electrons h e)) \<Longrightarrow> shift_electron 0 e h = h"
  by (simp add: shift_electron_def Electron_setPosition_def glm_add_zero)

lemma shift_electrons_zero:
  "\<forall>e \<in> set es. is_float_vec (m_position (electrons h e)) \<Longrightarrow> shift_electrons 0 es h = h"
  by (induction es) (simp_all add: shift_electron_zero)

lemma Nucleus_setPosition_same:
  assumes "m_position (nuclei h n) = p"
  shows "Nucleus_setPosition h n p = h"
  unfolding Nucleus_setPosition_def assms [symmetric] by simp

lemma nucleus_at_position:
  "m_position (nuclei (Atom_setPosition h a p) (m_nucleus a)) = p"
  by (simp add: Atom_setPosition_def Nucleus_setPosition_def Let_def)

lemma electron_shifted:
  "distinct (m_electrons a) \<Longrightarrow> e \<in> set (m_electrons a) \<Longrightarrow>
   m_position (electrons (Atom_setPosition h a p) e)
     = glm_add (m_position (electrons h e)) (glm_sub p (m_position (nuclei h (m_nucleus a))))"
  by (simp add: Atom_setPosition_def Let_def shift_electrons_member Nucleus_setPosition_def)

lemma Atom_setPosition_again:
  "Atom_setPosition (Atom_setPosition h a p) a p = Atom_setPosition h a p"
proof -
  let ?h1 = "Atom_setPosition h a p"
  have "m_position (nuclei ?h1 (m_nucleus a)) = p"
    by (rule nucleus_at_position)
  then have same: "Nucleus_setPosition ?h1 (m_nucleus a) p = ?h1"
    by (rule Nucleus_setPosition_same)
  have zero: "glm_sub p (m_position (nuclei ?h1 (m_nucleus a))) = 0"
    by (simp add: nucleus_at_position)
  have "\<forall>e \<in> set (m_electrons a). is_float_vec (m_position (electrons ?h1 e))"
    by (simp add: Atom_setPosition_def Let_def shift_electrons_float)
  then have "shift_electrons 0 (m_electrons a) ?h1 = ?h1"
    by (rule shift_electrons_zero)
  then show ?thesis
    by (simp add: Atom_setPosition_def [of ?h1] Let_def same zero)
qed

text \<open>
  C9, as amended. For every atom and every position p, \<open>setPosition(p)\<close> moves the nucleus
  to p and, when no electron occurs twice in the atom's electron vector, moves every electron
  from its position e to the \<open>float\<close> sum \<open>e + delta\<close>, with the same delta for all of them,
  the \<open>float\<close> difference of p and the old position of the nucleus. A second
  \<open>setPosition(p)\<close> changes nothing at all.
\<close>

theorem Atom_setPosition_rigid_shift:
  "m_position (nuclei (Atom_setPosition h a p) (m_nucleus a)) = p
   \<and> (distinct (m_electrons a) \<longrightarrow>
        (\<forall>e \<in> set (m_electrons a).
           m_position (electrons (Atom_setPosition h a p) e)
             = glm_add (m_position (electrons h e))
                 (glm_sub p (m_position (nuclei h (m_nucleus a))))))
   \<and> Atom_setPosition (Atom_setPosition h a p) a p = Atom_setPosition h a p"
proof (intro conjI ballI impI)
  show "m_position (nuclei (Atom_setPosition h a p) (m_nucleus a)) = p"
    by (rule nucleus_at_position)
next
  fix e
  assume "distinct (m_electrons a)" "e \<in> set (m_electrons a)"
  then show "m_position (electrons (Atom_setPosition h a p) e)
           = glm_add (m_position (electrons h e))
               (glm_sub p (m_position (nuclei h (m_nucleus a))))"
    by (rule electron_shifted)
next
  show "Atom_setPosition (Atom_setPosition h a p) a p = Atom_setPosition h a p"
    by (rule Atom_setPosition_again)
qed

theorem Atom_setPosition_rigid_shift_witness:
  "m_position (nuclei (Atom_setPosition drifted_store hydrogen_atom (Vec3 5 0 0)) 0) = Vec3 5 0 0
   \<and> m_position (electrons (Atom_setPosition drifted_store hydrogen_atom (Vec3 5 0 0)) 0)
       = Vec3 6 0 0
   \<and> Atom_setPosition (Atom_setPosition drifted_store hydrogen_atom (Vec3 5 0 0))
         hydrogen_atom (Vec3 5 0 0)
       = Atom_setPosition drifted_store hydrogen_atom (Vec3 5 0 0)"
  using Atom_setPosition_rigid_shift [of drifted_store hydrogen_atom "Vec3 5 0 0"]
  by (simp add: example_defs drifted_store_def glm_add_def glm_sub_def vec3_defs)

text \<open>
  The claim as stated, that two calls leave the nucleus and all electrons at p, fails in three
  ways. An electron that is not at the position of the nucleus stays away from p: with the
  nucleus at the origin and the electron at \<open>(1, 0, 0)\<close>, two calls of
  \<open>setPosition((5, 0, 0))\<close> leave the electron at \<open>(6, 0, 0)\<close>. An electron that the vector
  names twice (\<open>addElectron\<close> does not check) is shifted by twice the delta. And an electron
  that starts at the position of the nucleus misses p when the two \<open>float\<close> operations round:
  from \<open>0.3f\<close> to \<open>p = 0.1f\<close> it arrives one unit in the last place below p.
\<close>

theorem Atom_setPosition_counterexample:
  "m_position (electrons (Atom_setPosition
        (Atom_setPosition drifted_store hydrogen_atom (Vec3 5 0 0)) hydrogen_atom (Vec3 5 0 0)) 0)
     = Vec3 6 0 0
   \<and> Vec3 6 0 0 \<noteq> Vec3 5 0 0
   \<and> m_position (electrons (Atom_setPosition hydrogen_store
         (hydrogen_atom\<lparr>m_electrons := [0, 0]\<rparr>) (Vec3 5 0 0)) 0) = Vec3 10 0 0
   \<and> m_position (electrons (Atom_setPosition
         (Atom_setPosition fresh_store hydrogen_atom (Vec3 (binary32 0.1) 0 0))
           hydrogen_atom (Vec3 (binary32 0.1) 0 0)) 0)
       = Vec3 (13421772 / 2 ^ 27) 0 0
   \<and> Vec3 (binary32 0.1) 0 0 = Vec3 (13421773 / 2 ^ 27) 0 0"
  by (simp add: Atom_setPosition_again)
    (simp add: example_defs drifted_store_def fresh_store_def Atom_setPosition_def
      Nucleus_setPosition_def shift_electron_def Electron_setPosition_def Let_def
      glm_add_def glm_sub_def vec3_defs binary32_three_tenths binary32_one_tenth
      binary32_difference binary32_sum)

subsection \<open>Coulomb solver\<close>

lemma pair_step_pair_force:
  "pair_step ps i j fs =
     (let fs1 = fs[i := fs ! i + pair_force ps i j] in fs1[j := fs1 ! j - pair_force ps i j])"
  by (simp add: pair_step_def pair_force_def Let_def glm_normalize_def glm_length_def
        power2_eq_square mult.assoc)

lemma length_pair_step [simp]: "length (pair_step ps i j fs) = length fs"
  by (simp add: pair_step_pair_force Let_def)

lemma nth_pair_step:
  "i \<noteq> j \<Longrightarrow> i < length fs \<Longrightarrow> j < length fs \<Longrightarrow> k < length fs \<Longrightarrow>
   pair_step ps i j fs ! k = fs ! k + contrib ps i j k"
  by (simp add: pair_step_pair_force Let_def contrib_def nth_list_update)

lemma length_inner_loop [simp]: "length (inner_loop ps i j fs) = length fs"
proof (induction ps i j fs rule: inner_loop.induct)
  case (1 ps i j fs)
  show ?case
  proof (cases "j < length ps")
    case True
    with "1" show ?thesis
      by (simp add: inner_loop.simps [of ps i j fs])
  next
    case False
    then show ?thesis
      by (simp add: inner_loop.simps [of ps i j fs])
  qed
qed

lemma length_outer_loop [simp]: "length (outer_loop ps i fs) = length fs"
proof (induction ps i fs rule: outer_loop.induct)
  case (1 ps i fs)
  show ?case
  proof (cases "i < length ps")
    case True
    with "1" show ?thesis
      by (simp add: outer_loop.simps [of ps i fs])
  next
    case False
    then show ?thesis
      by (simp add: outer_loop.simps [of ps i fs])
  qed
qed

lemma nth_inner_loop:
  "i < j \<Longrightarrow> length fs = length ps \<Longrightarrow> k < length ps \<Longrightarrow>
   inner_loop ps i j fs ! k = fs ! k + (\<Sum>j' = j..<length ps. contrib ps i j' k)"
proof (induction ps i j fs rule: inner_loop.induct)
  case (1 ps i j fs)
  show ?case
  proof (cases "j < length ps")
    case True
    have "inner_loop ps i j fs ! k = inner_loop ps i (j + 1) (pair_step ps i j fs) ! k"
      using True by (simp add: inner_loop.simps [of ps i j fs])
    also have "\<dots> = pair_step ps i j fs ! k + (\<Sum>j' = j + 1..<length ps. contrib ps i j' k)"
      using "1.IH" [OF True] "1.prems" by simp
    also have "pair_step ps i j fs ! k = fs ! k + contrib ps i j k"
      using True "1.prems" by (simp add: nth_pair_step)
    finally show ?thesis
      using True by (simp add: sum.atLeast_Suc_lessThan add.assoc)
  next
    case False
    then show ?thesis
      by (simp add: inner_loop.simps [of ps i j fs])
  qed
qed

lemma nth_outer_loop:
  "length fs = length ps \<Longrightarrow> k < length ps \<Longrightarrow>
   outer_loop ps i fs ! k
     = fs ! k + (\<Sum>i' = i..<length ps. \<Sum>j = i' + 1..<length ps. contrib ps i' j k)"
proof (induction ps i fs rule: outer_loop.induct)
  case (1 ps i fs)
  show ?case
  proof (cases "i < length ps")
    case True
    have "outer_loop ps i fs ! k = outer_loop ps (i + 1) (inner_loop ps i (i + 1) fs) ! k"
      using True by (simp add: outer_loop.simps [of ps i fs])
    also have "\<dots> = inner_loop ps i (i + 1) fs ! k
        + (\<Sum>i' = i + 1..<length ps. \<Sum>j = i' + 1..<length ps. contrib ps i' j k)"
      using "1.IH" [OF True] "1.prems" by simp
    also have "inner_loop ps i (i + 1) fs ! k
        = fs ! k + (\<Sum>j = i + 1..<length ps. contrib ps i j k)"
      using "1.prems" by (simp add: nth_inner_loop)
    finally show ?thesis
      using True by (simp add: sum.atLeast_Suc_lessThan add.assoc)
  next
    case False
    then show ?thesis
      by (simp add: outer_loop.simps [of ps i fs])
  qed
qed

lemma contrib_row:
  assumes "k < n"
  shows "(\<Sum>j = Suc i..<n. contrib ps i j k)
     = (if i < k then - pair_force ps i k
        else if i = k then (\<Sum>j = Suc k..<n. pair_force ps k j) else 0)"
proof -
  consider "i < k" | "i = k" | "k < i" by linarith
  then show ?thesis
  proof cases
    case 1
    then have "(\<Sum>j = Suc i..<n. contrib ps i j k)
        = (\<Sum>j = Suc i..<n. if k = j then - pair_force ps i j else 0)"
      by (intro sum.cong) (auto simp add: contrib_def)
    also have "\<dots> = - pair_force ps i k"
      using 1 assms by simp
    finally show ?thesis using 1 by simp
  next
    case 2
    then show ?thesis by (simp add: contrib_def)
  next
    case 3
    then have "(\<Sum>j = Suc i..<n. contrib ps i j k) = (\<Sum>j = Suc i..<n. 0)"
      by (intro sum.cong) (auto simp add: contrib_def)
    then show ?thesis using 3 by simp
  qed
qed

lemma contrib_total:
  assumes "k < n"
  shows "(\<Sum>i = 0..<n. \<Sum>j = Suc i..<n. contrib ps i j k)
     = (\<Sum>j = Suc k..<n. pair_force ps k j) - (\<Sum>i = 0..<k. pair_force ps i k)"
proof -
  let ?row = "\<lambda>i. \<Sum>j = Suc i..<n. contrib ps i j k"
  have "sum ?row {0..<n} = sum ?row {0..<k} + sum ?row {k..<n}"
    using assms by (simp add: sum.atLeastLessThan_concat)
  also have "sum ?row {k..<n} = ?row k + sum ?row {Suc k..<n}"
    using assms by (simp add: sum.atLeast_Suc_lessThan)
  finally have split: "sum ?row {0..<n} = sum ?row {0..<k} + (?row k + sum ?row {Suc k..<n})" .
  have low: "sum ?row {0..<k} = (\<Sum>i = 0..<k. - pair_force ps i k)"
    by (intro sum.cong) (simp_all add: contrib_row [OF assms])
  have mid: "?row k = (\<Sum>j = Suc k..<n. pair_force ps k j)"
    by (simp add: contrib_row [OF assms])
  have high: "sum ?row {Suc k..<n} = (\<Sum>i = Suc k..<n. 0)"
    by (intro sum.cong) (simp_all add: contrib_row [OF assms])
  show ?thesis
    unfolding split low mid high by (simp add: sum_negf)
qed

lemma sum_list_update_group:
  fixes xs :: "'a::ab_group_add list"
  shows "k < length xs \<Longrightarrow> sum_list (xs[k := v]) = sum_list xs - xs ! k + v"
proof (induction xs arbitrary: k)
  case Nil
  then show ?case by simp
next
  case (Cons x xs)
  then show ?case
    by (cases k) (simp_all add: algebra_simps)
qed

lemma sum_list_replicate_zero: "sum_list (replicate n (0 :: 'a::ab_group_add)) = 0"
  by (induction n) simp_all

lemma sum_list_pair_step:
  "i \<noteq> j \<Longrightarrow> i < length fs \<Longrightarrow> j < length fs \<Longrightarrow>
   sum_list (pair_step ps i j fs) = sum_list fs"
  by (simp add: pair_step_pair_force Let_def sum_list_update_group)

lemma sum_list_inner_loop:
  "i < j \<Longrightarrow> length fs = length ps \<Longrightarrow> sum_list (inner_loop ps i j fs) = sum_list fs"
proof (induction ps i j fs rule: inner_loop.induct)
  case (1 ps i j fs)
  show ?case
  proof (cases "j < length ps")
    case True
    have "sum_list (inner_loop ps i j fs)
        = sum_list (inner_loop ps i (j + 1) (pair_step ps i j fs))"
      using True by (simp add: inner_loop.simps [of ps i j fs])
    also have "\<dots> = sum_list (pair_step ps i j fs)"
      using "1.IH" [OF True] "1.prems" by simp
    also have "\<dots> = sum_list fs"
      using True "1.prems" by (simp add: sum_list_pair_step)
    finally show ?thesis .
  next
    case False
    then show ?thesis
      by (simp add: inner_loop.simps [of ps i j fs])
  qed
qed

lemma sum_list_outer_loop:
  "length fs = length ps \<Longrightarrow> sum_list (outer_loop ps i fs) = sum_list fs"
proof (induction ps i fs rule: outer_loop.induct)
  case (1 ps i fs)
  show ?case
  proof (cases "i < length ps")
    case True
    have "sum_list (outer_loop ps i fs)
        = sum_list (outer_loop ps (i + 1) (inner_loop ps i (i + 1) fs))"
      using True by (simp add: outer_loop.simps [of ps i fs])
    also have "\<dots> = sum_list (inner_loop ps i (i + 1) fs)"
      using "1.IH" [OF True] "1.prems" by simp
    also have "\<dots> = sum_list fs"
      using "1.prems" by (simp add: sum_list_inner_loop)
    finally show ?thesis .
  next
    case False
    then show ?thesis
      by (simp add: outer_loop.simps [of ps i fs])
  qed
qed

text \<open>
  C4. For every particle list, what a pair \<open>(i, j)\<close> adds to the accumulator of particle i
  is the exact negation of what it adds to the accumulator of particle j, and the sum of all
  force vectors that \<open>calculateForces\<close> returns is the zero vector.
\<close>

theorem calculateForces_third_law:
  "(\<forall>i j fs. i < j \<and> j < length ps \<and> length fs = length ps \<longrightarrow>
       pair_step ps i j fs ! i - fs ! i = - (pair_step ps i j fs ! j - fs ! j))
   \<and> sum_list (calculateForces ps) = 0"
proof (intro conjI allI impI)
  fix i j and fs :: "vec3 list"
  assume "i < j \<and> j < length ps \<and> length fs = length ps"
  then show "pair_step ps i j fs ! i - fs ! i = - (pair_step ps i j fs ! j - fs ! j)"
    by (simp add: nth_pair_step contrib_def)
next
  show "sum_list (calculateForces ps) = 0"
    by (simp add: calculateForces_def sum_list_outer_loop sum_list_replicate_zero)
qed

theorem calculateForces_third_law_witness:
  "sum_list (calculateForces three_charges) = 0
   \<and> pair_step three_charges 0 1 [0, 0, 0] ! 0 - [0, 0, 0] ! 0
       = - (pair_step three_charges 0 1 [0, 0, 0] ! 1 - [0, 0, 0] ! 1)"
  using calculateForces_third_law [of three_charges, THEN conjunct1, rule_format, of 0 1 "[0, 0, 0]"]
        calculateForces_third_law [of three_charges, THEN conjunct2]
  by (simp add: three_charges_def)

text \<open>
  C5. \<open>calculateForces\<close> returns one force vector per input particle, in the order of the
  input, and it is the list the specification describes: every accumulator starts at zero,
  and every pair \<open>(i, j)\<close> with \<open>i < j\<close> contributes nothing when its distance is below
  \<open>1e-9\<close> and otherwise adds the force of magnitude \<open>k\<^sub>e q\<^sub>i q\<^sub>j / d\<^sup>2\<close> along
  \<open>(pos(i) - pos(j)) / d\<close> to the accumulator of i and subtracts it from that of j. The
  function reads the particles and writes only its own result.
\<close>

theorem calculateForces_spec:
  "length (calculateForces ps) = length ps
   \<and> calculateForces ps = spec_forces ps
   \<and> (\<forall>i j fs.
         glm_length (m_position (ps ! i) - m_position (ps ! j)) < 1 / 10 ^ 9 \<longrightarrow>
         pair_step ps i j fs = fs)"
proof (intro conjI allI impI)
  show "length (calculateForces ps) = length ps"
    by (simp add: calculateForces_def)
next
  show "calculateForces ps = spec_forces ps"
    by (rule nth_equalityI)
      (simp_all add: calculateForces_def spec_forces_def nth_outer_loop contrib_total)
next
  fix i j and fs :: "vec3 list"
  assume "glm_length (m_position (ps ! i) - m_position (ps ! j)) < 1 / 10 ^ 9"
  then show "pair_step ps i j fs = fs"
    by (simp add: pair_step_def Let_def)
qed

theorem calculateForces_spec_witness:
  "calculateForces three_charges
     = [Vec3 (- 17975000000) 0 0, Vec3 8987500000 0 0, Vec3 8987500000 0 0]
   \<and> pair_step three_charges 1 2 [0, 0, 0] = [0, 0, 0]"
  using calculateForces_spec [of three_charges, THEN conjunct2, THEN conjunct1]
        calculateForces_spec [of three_charges, THEN conjunct2, THEN conjunct2, rule_format,
          of 1 2 "[0, 0, 0]"]
  by (simp add: spec_forces_def three_charges_def Particle_ctor_def pair_force_def
        glm_length_def glm_dot_def COULOMB_CONSTANT_def scale_def vec3_defs Let_def
        sum.atLeast_Suc_lessThan upt_rec numeral_eq_Suc)

subsection \<open>Nuclear reactor\<close>

text \<open>
  C1. The claim: \<open>simulateFission\<close> on a nucleus with Z = 92 and A = 235 returns a positive
  energy of the order of \<open>10\<^sup>8\<close> eV, the mass defect
  m(U-235) - [m(Ba-141) + m(Kr-92) + 3 m(neutron)] converted by \<open>E = m c\<^sup>2\<close>. With the literal
  masses of the source that mass defect is \<open>-0.8226321\<close> AMU, so the guard
  \<open>massDefectAMU \<le> 0\<close> fires and the call returns 0 on every such nucleus, the nucleus of
  \<open>Atom(92, 235, position)\<close> among them.
\<close>

theorem simulateFission_U235_returns_zero:
  "m_atomicNumber n = 92 \<and> m_massNumber n = 235 \<Longrightarrow>
   simulateFission n = 0
   \<and> (235.0439299 - (140.914411 + 91.926156 + 3 * 1.008665) :: real) = - 0.8226321"
  by (simp add: simulateFission_def reactor_defs)

theorem simulateFission_U235_returns_zero_witness:
  "simulateFission (Atom_nucleus 92 235 (Vec3 5 0 0)) = 0"
  using simulateFission_U235_returns_zero [of "Atom_nucleus 92 235 (Vec3 5 0 0)"]
  by (simp add: Atom_nucleus_def Nucleus_ctor_def)

text \<open>
  C2. For every nucleus other than (Z = 92, A = 235) \<open>simulateFission\<close> returns exactly 0,
  and for every pair of nuclei that is not one deuterium (Z = 1, A = 2) and one tritium
  (Z = 1, A = 3), in either order, \<open>simulateFusion\<close> returns exactly 0. Both are total
  functions of the nuclei they read: nothing is thrown and nothing is written.
\<close>

theorem unsupported_reaction_returns_zero:
  "(\<not> (m_atomicNumber n = 92 \<and> m_massNumber n = 235) \<longrightarrow> simulateFission n = 0)
   \<and> (\<not> ((m_atomicNumber n1 = 1 \<and> m_massNumber n1 = 2 \<and>
            m_atomicNumber n2 = 1 \<and> m_massNumber n2 = 3) \<or>
           (m_atomicNumber n1 = 1 \<and> m_massNumber n1 = 3 \<and>
            m_atomicNumber n2 = 1 \<and> m_massNumber n2 = 2))
        \<longrightarrow> simulateFusion n1 n2 = 0)"
  by (auto simp add: simulateFission_def simulateFusion_def Let_def)

theorem unsupported_reaction_returns_zero_witness:
  "simulateFission (Atom_nucleus 1 1 0) = 0
   \<and> simulateFusion (Atom_nucleus 1 1 0) (Atom_nucleus 2 4 0) = 0
   \<and> simulateFusion (Atom_nucleus 1 2 0) (Atom_nucleus 1 2 0) = 0"
  using unsupported_reaction_returns_zero
          [of "Atom_nucleus 1 1 0" "Atom_nucleus 1 1 0" "Atom_nucleus 2 4 0"]
        unsupported_reaction_returns_zero
          [of "Atom_nucleus 1 1 0" "Atom_nucleus 1 2 0" "Atom_nucleus 1 2 0"]
  by (simp add: Atom_nucleus_def Nucleus_ctor_def)

text \<open>
  C3. \<open>simulateFusion\<close> on one deuterium and one tritium nucleus, in either argument order,
  returns the mass defect [m(D) + m(T)] - [m(He-4) + m(neutron)] converted by \<open>E = m c\<^sup>2\<close>
  and Joule to eV; the value is positive and of the order of \<open>10\<^sup>7\<close> eV.
\<close>

theorem simulateFusion_deuterium_tritium:
  "(m_atomicNumber n1 = 1 \<and> m_massNumber n1 = 2 \<and> m_atomicNumber n2 = 1 \<and> m_massNumber n2 = 3) \<or>
   (m_atomicNumber n1 = 1 \<and> m_massNumber n1 = 3 \<and> m_atomicNumber n2 = 1 \<and> m_massNumber n2 = 2)
   \<Longrightarrow>
   simulateFusion n1 n2 =
     ((2.01410178 + 3.01604927) - (4.00260325 + 1.008665)) * AMU_TO_KG * C_SQUARED * J_TO_EV
   \<and> 0 < simulateFusion n1 n2
   \<and> 10 ^ 7 \<le> simulateFusion n1 n2 \<and> simulateFusion n1 n2 < 10 ^ 8"
  by (auto simp add: simulateFusion_def reactor_defs)

theorem simulateFusion_deuterium_tritium_witness:
  "10 ^ 7 \<le> simulateFusion (Atom_nucleus 1 2 0) (Atom_nucleus 1 3 0)
   \<and> simulateFusion (Atom_nucleus 1 2 0) (Atom_nucleus 1 3 0) < 10 ^ 8
   \<and> 10 ^ 7 \<le> simulateFusion (Atom_nucleus 1 3 0) (Atom_nucleus 1 2 0)
   \<and> simulateFusion (Atom_nucleus 1 3 0) (Atom_nucleus 1 2 0) < 10 ^ 8"
  using simulateFusion_deuterium_tritium [of "Atom_nucleus 1 2 0" "Atom_nucleus 1 3 0"]
        simulateFusion_deuterium_tritium [of "Atom_nucleus 1 3 0" "Atom_nucleus 1 2 0"]
  by (simp add: Atom_nucleus_def Nucleus_ctor_def)

text \<open>
  C10. \<open>calculateBindingEnergyPerNucleon\<close> with mass number A = 0 returns exactly 0,
  through the guard that precedes the formula. For every A other than 0 the \<open>float\<close> value
  of A is not zero, so no division by A divides by zero, and the formula is evaluated: where
  the library returns the values of \<open>A\<^sup>2\<^sup>/\<^sup>3\<close>, \<open>A\<^sup>1\<^sup>/\<^sup>3\<close>, \<open>(A - 2 Z)\<^sup>2\<close> and \<open>sqrt A\<close>,
  the result is the semi-empirical formula of the specification.
\<close>

theorem calculateBindingEnergyPerNucleon_guard:
  "calculateBindingEnergyPerNucleon pw sq Z 0 = Some 0
   \<and> (A \<noteq> 0 \<longrightarrow> int_to_float A \<noteq> 0)
   \<and> (A \<noteq> 0
        \<and> pw (int_to_float A) (2 / 3) = Some (int_to_float A powr (2 / 3))
        \<and> pw (int_to_float A) (1 / 3) = Some (int_to_float A powr (1 / 3))
        \<and> pw (int_to_float A - 2 * int_to_float Z) 2
            = Some ((int_to_float A - 2 * int_to_float Z)\<^sup>2)
        \<and> sq (int_to_float A) = Some (sqrt (int_to_float A))
      \<longrightarrow> calculateBindingEnergyPerNucleon pw sq Z A
            = Some (semi_empirical_eV_per_nucleon (sint Z) (sint A)))"
proof (intro conjI impI)
  show "calculateBindingEnergyPerNucleon pw sq Z 0 = Some 0"
    by (simp add: calculateBindingEnergyPerNucleon_def)
next
  assume "A \<noteq> 0"
  then show "int_to_float A \<noteq> 0"
    by (simp add: int_to_float_eq_0_iff)
next
  assume h: "A \<noteq> 0
        \<and> pw (int_to_float A) (2 / 3) = Some (int_to_float A powr (2 / 3))
        \<and> pw (int_to_float A) (1 / 3) = Some (int_to_float A powr (1 / 3))
        \<and> pw (int_to_float A - 2 * int_to_float Z) 2
            = Some ((int_to_float A - 2 * int_to_float Z)\<^sup>2)
        \<and> sq (int_to_float A) = Some (sqrt (int_to_float A))"
  then have a: "int_to_float A \<noteq> 0"
    by (simp add: int_to_float_eq_0_iff)
  have ia: "int_to_float A = real_of_int (sint A)" and iz: "int_to_float Z = real_of_int (sint Z)"
    by (simp_all add: int_to_float_def del: of_int_sint)
  show "calculateBindingEnergyPerNucleon pw sq Z A
          = Some (semi_empirical_eV_per_nucleon (sint Z) (sint A))"
    using h a unfolding ia iz
    by (auto simp add: calculateBindingEnergyPerNucleon_def semi_empirical_eV_per_nucleon_def
          ia iz fdiv_def Let_def smod_2_eq_0_iff max_def simp del: of_int_sint)
qed

theorem calculateBindingEnergyPerNucleon_guard_witness:
  "calculateBindingEnergyPerNucleon math_pow math_sqrt 2 0 = Some 0
   \<and> calculateBindingEnergyPerNucleon math_pow math_sqrt 2 4
       = Some (semi_empirical_eV_per_nucleon 2 4)"
  using calculateBindingEnergyPerNucleon_guard [of math_pow math_sqrt 2 4]
  by (simp add: int_to_float_def math_pow_def math_sqrt_def)

subsection \<open>Orbital model\<close>

text \<open>Where neither \<open>int\<close> product wraps around, that is for \<open>\<bar>Z\<bar> \<le> 46340\<close> and
  \<open>1 \<le> n \<le> 46340\<close>, the function returns \<open>-13.605693 Z\<^sup>2 / n\<^sup>2\<close>; for \<open>n \<le> 0\<close> it returns 0.\<close>

lemma calculateOrbitalEnergy_no_wrap:
  "(\<bar>sint Z\<bar> \<le> 46340 \<and> 1 \<le> sint n \<and> sint n \<le> 46340 \<longrightarrow>
      calculateOrbitalEnergy Z n =
        Some (- 13.605693 * (real_of_int (sint Z))\<^sup>2 / (real_of_int (sint n))\<^sup>2))
   \<and> (sint n \<le> 0 \<longrightarrow> calculateOrbitalEnergy Z n = Some 0)
   \<and> calculateOrbitalEnergy 1 1 = Some (- 13.605693)
   \<and> calculateOrbitalEnergy 1 2 = Some (- 3.40142325)"
proof (intro conjI impI)
  assume range: "\<bar>sint Z\<bar> \<le> 46340 \<and> 1 \<le> sint n \<and> sint n \<le> 46340"
  then have zz: "sint (Z * Z) = sint Z * sint Z" and nn: "sint (n * n) = sint n * sint n"
    by (simp_all add: sint_square_no_wrap)
  from range have "real_of_int (sint n) \<noteq> 0"
    by (simp del: of_int_sint)
  with range show "calculateOrbitalEnergy Z n =
        Some (- 13.605693 * (real_of_int (sint Z))\<^sup>2 / (real_of_int (sint n))\<^sup>2)"
    by (simp add: orbital_defs zz nn power2_eq_square del: of_int_sint)
next
  assume "sint n \<le> 0"
  then show "calculateOrbitalEnergy Z n = Some 0"
    by (simp add: calculateOrbitalEnergy_def)
next
  show "calculateOrbitalEnergy 1 1 = Some (- 13.605693)"
    by (simp add: orbital_defs)
next
  show "calculateOrbitalEnergy 1 2 = Some (- 3.40142325)"
    by (simp add: orbital_defs)
qed

text \<open>
  C6. The claim: for every atomic number Z and every orbital level \<open>n \<ge> 1\<close>,
  \<open>calculateOrbitalEnergy(Z, n)\<close> is \<open>-13.605693 Z\<^sup>2 / n\<^sup>2\<close> eV, and 0 for every \<open>n \<le> 0\<close>.
  The source multiplies in \<open>int\<close> and converts to \<open>float\<close> afterwards. For \<open>n = 65536\<close> the
  product \<open>n * n\<close> wraps to 0 and the quotient is a division by zero, also when the level
  arrives through \<open>simulateElectronJump\<close>; for \<open>Z = 46341\<close> the product \<open>Z * Z\<close> wraps to
  \<open>-2147479015\<close> and the returned energy is positive.
\<close>

theorem calculateOrbitalEnergy_int_overflow:
  "1 \<le> sint (65536 :: cint)
   \<and> calculateOrbitalEnergy 1 65536 = None
   \<and> fst (simulateElectronJump hydrogen_store (Some 0) (Some hydrogen_atom) 65536) = None
   \<and> 1 \<le> sint (1 :: cint)
   \<and> calculateOrbitalEnergy 46341 1 = Some (13.605693 * 2147479015)
   \<and> calculateOrbitalEnergy 46341 1 \<noteq>
       Some (- 13.605693 * (real_of_int (sint (46341 :: cint)))\<^sup>2
               / (real_of_int (sint (1 :: cint)))\<^sup>2)"
  by (simp add: orbital_defs simulateElectronJump_def fsub_def Let_def example_defs)

text \<open>
  C7. For every electron, atom and \<open>newLevel \<ge> 1\<close>, \<open>simulateElectronJump\<close> returns
  \<open>calculateOrbitalEnergy(Z, newLevel) - calculateOrbitalEnergy(Z, currentLevel)\<close>, with Z the
  atom's atomic number and \<open>currentLevel\<close> the electron's level before the call, and the store
  after the call differs from the one before only in that electron's level, which is
  \<open>newLevel\<close>. The jump from level 2 to level 1 for Z = 1 returns \<open>-10.20426975\<close> eV and
  leaves the level at 1.
\<close>

theorem simulateElectronJump_valid_level:
  "1 \<le> sint newLevel \<Longrightarrow>
   simulateElectronJump h (Some e) (Some a) newLevel =
     (fsub (calculateOrbitalEnergy (atom_atomicNumber a) newLevel)
           (calculateOrbitalEnergy (atom_atomicNumber a) (m_orbitalLevel (electrons h e))),
      h\<lparr>electrons := (electrons h)(e := (electrons h e)\<lparr>m_orbitalLevel := newLevel\<rparr>)\<rparr>)
   \<and> m_orbitalLevel (electrons (snd (simulateElectronJump h (Some e) (Some a) newLevel)) e)
       = newLevel
   \<and> (atom_atomicNumber a = 1 \<and> m_orbitalLevel (electrons h e) = 2 \<and> newLevel = 1 \<longrightarrow>
        fst (simulateElectronJump h (Some e) (Some a) newLevel) = Some (- 10.20426975))"
  by (auto simp add: simulateElectronJump_def Electron_setOrbitalLevel_def Let_def fsub_def
        orbital_defs)

theorem simulateElectronJump_valid_level_witness:
  "fst (simulateElectronJump hydrogen_store (Some 0) (Some hydrogen_atom) 1)
     = Some (- 10.20426975)
   \<and> m_orbitalLevel
        (electrons (snd (simulateElectronJump hydrogen_store (Some 0) (Some hydrogen_atom) 1)) 0)
       = 1"
  using simulateElectronJump_valid_level [of 1 hydrogen_store 0 hydrogen_atom]
  by (simp add: example_defs fsub_def orbital_defs)

text \<open>
  C8. For every electron pointer, atom pointer and \<open>newLevel \<le> 0\<close>, \<open>simulateElectronJump\<close>
  returns 0 and the store after the call is the store before it.
\<close>

theorem simulateElectronJump_invalid_level:
  "sint newLevel \<le> 0 \<Longrightarrow> simulateElectronJump h electron atom newLevel = (Some 0, h)"
  by (simp add: simulateElectronJump_def Let_def split: option.splits)

theorem simulateElectronJump_invalid_level_witness:
  "simulateElectronJump hydrogen_store (Some 0) (Some hydrogen_atom) 0 = (Some 0, hydrogen_store)
   \<and> simulateElectronJump hydrogen_store (Some 0) (Some hydrogen_atom) (- 3)
       = (Some 0, hydrogen_store)"
  using simulateElectronJump_invalid_level [of 0 hydrogen_store "Some 0" "Some hydrogen_atom"]
        simulateElectronJump_invalid_level [of "- 3" hydrogen_store "Some 0" "Some hydrogen_atom"]
  by simp

end
